theory Spec2Isabelle
  imports Main
begin

section \<open>Values exchanged with the cluster client\<close>

text \<open>
  A value caught in a \<open>catch\<close> clause or handed to the watch's done callback: either
  \<open>null\<close> (the stream ended without an error object) or an error object with its
  \<open>name\<close>, its optional \<open>type\<close> field (the one the done callback tests against
  \<open>'aborted'\<close>) and its \<open>message\<close>.
\<close>

datatype js_error =
    JsNull
  | JsError (err_name: string) (err_type: "string option") (err_message: string)

text \<open>\<open>err?.type\<close>: undefined on \<open>null\<close> and on an object without the field.\<close>

fun errType :: "js_error \<Rightarrow> string option" where
  "errType JsNull = None"
| "errType (JsError n t m) = t"

text \<open>\<open>`${err}`\<close>: the string conversion of the caught value.\<close>

fun toString :: "js_error \<Rightarrow> string" where
  "toString JsNull = ''null''"
| "toString (JsError n t m) =
     (if n = [] then m else if m = [] then n else n @ '': '' @ m)"

text \<open>\<open>new Error('Timeout')\<close>, the value the deadline timer rejects with.\<close>

definition timeoutError :: js_error where
  "timeoutError = JsError ''Error'' None ''Timeout''"

text \<open>
  The pod snapshot handed to the watch callback. \<open>status\<close> and \<open>phase\<close> may be
  missing; \<open>metadata.name\<close> is always set by the API server.
\<close>

record pod_status =
  phase :: "string option"

record pod =
  metadata_name :: string
  status :: "pod_status option"

text \<open>\<open>pod.status?.phase\<close>\<close>

definition phaseOf :: "pod \<Rightarrow> string option" where
  "phaseOf p = (case status p of None \<Rightarrow> None | Some st \<Rightarrow> phase st)"

text \<open>\<open>phase || ''\<close>: undefined and the empty string both give the empty string.\<close>

definition orEmpty :: "string option \<Rightarrow> string" where
  "orEmpty ph = (case ph of None \<Rightarrow> [] | Some s \<Rightarrow> s)"

text \<open>\<open>['Succeeded', 'Failed'].includes(phase || '')\<close>\<close>

definition isTerminal :: "string option \<Rightarrow> bool" where
  "isTerminal ph = (orEmpty ph \<in> set [''Succeeded'', ''Failed''])"

section \<open>Configuration\<close>

text \<open>\<open>process.env\<close>\<close>

type_synonym process_env = "string \<rightharpoonup> string"

text \<open>\<open>const NAMESPACE = process.env.K8S_NAMESPACE || 'default'\<close>\<close>

definition NAMESPACE :: "process_env \<Rightarrow> string" where
  "NAMESPACE penv =
     (case penv ''K8S_NAMESPACE'' of
        None \<Rightarrow> ''default''
      | Some s \<Rightarrow> if s = [] then ''default'' else s)"

text \<open>
  The delay handed to \<open>setTimeout\<close> in the handler, in milliseconds: the literal
  \<open>5 * 60 * 1000\<close>, whatever \<open>process.env\<close> holds.
\<close>

definition timeoutDelay :: "process_env \<Rightarrow> nat" where
  "timeoutDelay penv = 5 * 60 * 1000"

section \<open>Task descriptors\<close>

text \<open>The decimal digits of \<open>Date.now()\<close>, as the template literal prints them.\<close>

definition digit :: "nat \<Rightarrow> char" where
  "digit d = ''0123456789'' ! d"

function showNat :: "nat \<Rightarrow> string" where
  "showNat n = (if n < 10 then [digit n] else showNat (n div 10) @ [digit (n mod 10)])"
  by pat_completeness auto
termination
  by (relation "measure id") auto

declare showNat.simps [simp del]

text \<open>The two servers of the repository: one submits a bare pod, the other a job.\<close>

datatype variant = PodVariant | JobVariant

text \<open>\<open>`fetch-pod-${Date.now()}`\<close> and \<open>`fetch-job-${Date.now()}`\<close>\<close>

fun unitName :: "variant \<Rightarrow> nat \<Rightarrow> string" where
  "unitName PodVariant t = ''fetch-pod-'' @ showNat t"
| "unitName JobVariant t = ''fetch-job-'' @ showNat t"

text \<open>
  \<open>podManifest\<close> and \<open>jobManifest\<close>. The job adds \<open>ttlSecondsAfterFinished: 60\<close> and
  \<open>backoffLimit: 0\<close>; the pod has neither field.
\<close>

record manifest =
  m_kind :: string
  m_name :: string
  m_restartPolicy :: string
  m_container :: string
  m_image :: string
  m_args :: "string list"
  m_ttlSecondsAfterFinished :: "nat option"
  m_backoffLimit :: "nat option"

fun buildManifest :: "variant \<Rightarrow> string \<Rightarrow> string \<Rightarrow> manifest" where
  "buildManifest PodVariant name url =
     \<lparr> m_kind = ''Pod'', m_name = name, m_restartPolicy = ''Never'',
       m_container = ''fetcher'', m_image = ''dardanisufi95/puppeteer-fetcher:latest'',
       m_args = [url], m_ttlSecondsAfterFinished = None, m_backoffLimit = None \<rparr>"
| "buildManifest JobVariant name url =
     \<lparr> m_kind = ''Job'', m_name = name, m_restartPolicy = ''Never'',
       m_container = ''fetcher'', m_image = ''dardanisufi95/puppeteer-fetcher:latest'',
       m_args = [url], m_ttlSecondsAfterFinished = Some 60, m_backoffLimit = Some 0 \<rparr>"

text \<open>
  The watch filter: \<open>fieldSelector: `metadata.name=${podName}`\<close> for the pod,
  \<open>labelSelector: `job-name=${jobName}`\<close> for the job.
\<close>

fun selector :: "variant \<Rightarrow> string \<Rightarrow> string" where
  "selector PodVariant name = ''metadata.name='' @ name"
| "selector JobVariant name = ''job-name='' @ name"

section \<open>Requests sent to the cluster\<close>

text \<open>
  Every request the handler issues, in the order it issues them: the create call, the
  watch request, \<open>abort()\<close> on the watch request, the log read and the pod deletion.
\<close>

datatype api_call =
    CreateUnit string manifest
  | WatchPods string string
  | AbortWatch
  | ReadPodLog string string string
  | DeletePod string string

fun isCreate :: "api_call \<Rightarrow> bool" where
  "isCreate (CreateUnit ns m) = True"
| "isCreate c = False"

fun isWatch :: "api_call \<Rightarrow> bool" where
  "isWatch (WatchPods ns sel) = True"
| "isWatch c = False"

fun isAbort :: "api_call \<Rightarrow> bool" where
  "isAbort AbortWatch = True"
| "isAbort c = False"

fun isReadLog :: "api_call \<Rightarrow> bool" where
  "isReadLog (ReadPodLog ns n c) = True"
| "isReadLog c = False"

fun isDelete :: "api_call \<Rightarrow> bool" where
  "isDelete (DeletePod ns n) = True"
| "isDelete c = False"

definition countCalls :: "(api_call \<Rightarrow> bool) \<Rightarrow> api_call list \<Rightarrow> nat" where
  "countCalls P cs = length (filter P cs)"

section \<open>The watch promise\<close>

text \<open>
  What reaches the promise built around \<open>watchClient.watch\<close> before the deadline, in
  the order it arrives: the watch request is established (\<open>.then(req => ...)\<close>), the
  watch call rejects (\<open>.catch(reject)\<close>), the event callback is called with an event
  type and a pod snapshot, or the done callback is called with an error value.
\<close>

datatype watch_event =
    WatchStarted
  | WatchRejected js_error
  | PodEvent string pod
  | StreamDone js_error

datatype settlement = Resolved | Rejected js_error

text \<open>
  The variables the callbacks close over: \<open>requestRef\<close> (set or still undefined), the
  pending timer, the state of the promise, \<open>podName\<close>, and the requests issued so far.
\<close>

record watch_state =
  requestRef :: bool
  timerArmed :: bool
  settled :: "settlement option"
  podName :: string
  calls :: "api_call list"

text \<open>\<open>resolve()\<close> and \<open>reject(err)\<close>: only the first of them settles the promise.\<close>

definition resolve :: "watch_state \<Rightarrow> watch_state" where
  "resolve s = (if settled s = None then s\<lparr>settled := Some Resolved\<rparr> else s)"

definition reject :: "js_error \<Rightarrow> watch_state \<Rightarrow> watch_state" where
  "reject e s = (if settled s = None then s\<lparr>settled := Some (Rejected e)\<rparr> else s)"

text \<open>\<open>requestRef?.abort()\<close>: nothing happens while \<open>requestRef\<close> is undefined.\<close>

definition abortRequest :: "watch_state \<Rightarrow> watch_state" where
  "abortRequest s = (if requestRef s then s\<lparr>calls := calls s @ [AbortWatch]\<rparr> else s)"

definition clearTimeout :: "watch_state \<Rightarrow> watch_state" where
  "clearTimeout s = s\<lparr>timerArmed := False\<rparr>"

text \<open>The timer callback; a cleared timer never runs it.\<close>

definition onTimeout :: "watch_state \<Rightarrow> watch_state" where
  "onTimeout s =
     (if timerArmed s
      then reject timeoutError (abortRequest (s\<lparr>timerArmed := False\<rparr>))
      else s)"

text \<open>
  The event callback. Only the job server assigns \<open>podName = pod.metadata.name\<close>, and it
  does so on every event.
\<close>

definition onPodEvent :: "variant \<Rightarrow> pod \<Rightarrow> watch_state \<Rightarrow> watch_state" where
  "onPodEvent v p s =
     (let s1 = (case v of PodVariant \<Rightarrow> s | JobVariant \<Rightarrow> s\<lparr>podName := metadata_name p\<rparr>)
      in if isTerminal (phaseOf p)
         then resolve (abortRequest (clearTimeout s1))
         else s1)"

text \<open>The done callback: \<open>if (err?.type !== 'aborted') { clearTimeout; reject(err) }\<close>\<close>

definition onDone :: "js_error \<Rightarrow> watch_state \<Rightarrow> watch_state" where
  "onDone err s =
     (if errType err \<noteq> Some ''aborted'' then reject err (clearTimeout s) else s)"

fun onEvent :: "variant \<Rightarrow> watch_event \<Rightarrow> watch_state \<Rightarrow> watch_state" where
  "onEvent v WatchStarted s = s\<lparr>requestRef := True\<rparr>"
| "onEvent v (WatchRejected e) s = reject e s"
| "onEvent v (PodEvent ty p) s = onPodEvent v p s"
| "onEvent v (StreamDone e) s = onDone e s"


text \<open>
  The callbacks of the events that reach the process in one chunk run one after the
  other, in arrival order. No callback tests whether the promise is already settled, so
  all of them run, also the ones behind the event that settles it.
\<close>

definition runChunk :: "variant \<Rightarrow> watch_event list \<Rightarrow> watch_state \<Rightarrow> watch_state" where
  "runChunk v es s = fold (onEvent v) es s"

text \<open>
  \<open>await new Promise(...)\<close>: \<open>resolve\<close> and \<open>reject\<close> only queue the handler's
  continuation, which runs when the callbacks of the current chunk have returned. The
  chunks are delivered in order until one has settled the promise; when the chunks that
  arrive before the deadline are used up, the timer fires.
\<close>

fun awaitWatch :: "variant \<Rightarrow> watch_event list list \<Rightarrow> watch_state \<Rightarrow> watch_state" where
  "awaitWatch v [] s = onTimeout s"
| "awaitWatch v (c # cs) s =
     (let s' = runChunk v c s
      in if settled s' \<noteq> None then s' else awaitWatch v cs s')"

section \<open>The \<open>fetch-url\<close> handler\<close>

text \<open>
  The cluster as one call sees it: the clock, the answer to the create call, the chunks
  of watch events that arrive before the deadline, the log store and the answer to a
  deletion.
\<close>

record cluster =
  now :: nat
  createError :: "js_error option"
  events :: "watch_event list list"
  podLogs :: "string \<Rightarrow> js_error + string"
  deleteError :: "string \<Rightarrow> js_error option"

text \<open>
  How a call ends: the handler returns \<open>{content: [{type: 'text', text}]}\<close>, it throws,
  or the watch promise never settles.
\<close>

datatype response = Returned string | Thrown js_error | Pending

text \<open>The state the promise executor leaves behind before any callback has run.\<close>

definition startWatch :: "variant \<Rightarrow> string \<Rightarrow> string \<Rightarrow> api_call list \<Rightarrow> watch_state" where
  "startWatch v ns name cs =
     \<lparr> requestRef = False, timerArmed = True, settled = None,
       podName = (case v of PodVariant \<Rightarrow> name | JobVariant \<Rightarrow> []),
       calls = cs @ [WatchPods ns (selector v name)] \<rparr>"

text \<open>
  The text the handler returns after the log read: the log, or
  \<open>`Error retrieving logs: ${err}`\<close>.
\<close>

definition readLogText :: "js_error + string \<Rightarrow> string" where
  "readLogText r = (case r of Inr t \<Rightarrow> t | Inl e \<Rightarrow> ''Error retrieving logs: '' @ toString e)"

text \<open>
  The deletion, given the cluster's answer to it. In the pod server a failure is caught
  and only logged; in the job server the call is commented out, so nothing is sent.
\<close>

fun cleanup :: "variant \<Rightarrow> string \<Rightarrow> string \<Rightarrow> js_error option \<Rightarrow> api_call list" where
  "cleanup PodVariant ns name None = [DeletePod ns name]"
| "cleanup PodVariant ns name (Some err) = [DeletePod ns name]"
| "cleanup JobVariant ns name answer = []"

text \<open>
  The handler. Its second result lists the requests sent by the handler itself and by
  the callbacks that ran before it resumed from the watch. The log read is issued as soon
  as the handler resumes, with the value \<open>podName\<close> has at that moment.
\<close>

definition fetchUrl :: "variant \<Rightarrow> process_env \<Rightarrow> cluster \<Rightarrow> string \<Rightarrow> response \<times> api_call list" where
  "fetchUrl v penv k url =
     (let ns = NAMESPACE penv;
          name = unitName v (now k);
          created = [CreateUnit ns (buildManifest v name url)]
      in case createError k of
           Some err \<Rightarrow> (Thrown err, created)
         | None \<Rightarrow>
             (let w = awaitWatch v (events k) (startWatch v ns name created)
              in case settled w of
                   None \<Rightarrow> (Pending, calls w)
                 | Some (Rejected err) \<Rightarrow> (Thrown err, calls w)
                 | Some Resolved \<Rightarrow>
                     (let html = readLogText (podLogs k (podName w))
                      in (Returned html,
                          calls w @ [ReadPodLog ns (podName w) ''fetcher'']
                                  @ cleanup v ns (podName w) (deleteError k (podName w))))))"

section \<open>Calls in flight\<close>







section \<open>The worker\<close>

text \<open>
  \<open>fetcher.js\<close>: what the worker writes to standard output and its exit status, given
  what loading the page gives for a URL (the page content, or the error thrown while
  launching, loading or reading the page), the error \<open>browser.close()\<close> throws, if any,
  and the arguments. \<open>console.log\<close> ends the content with a newline; a failing
  \<open>browser.close()\<close> comes after the content has been printed.
\<close>

record worker_run =
  stdout :: string
  exitCode :: nat

definition fetcher ::
  "(string \<Rightarrow> js_error + string) \<Rightarrow> js_error option \<Rightarrow> string list \<Rightarrow> worker_run" where
  "fetcher page closeError argv =
     (case argv of
        [] \<Rightarrow> \<lparr> stdout = [], exitCode = 1 \<rparr>
      | url # rest \<Rightarrow>
          if url = [] then \<lparr> stdout = [], exitCode = 1 \<rparr>
          else (case page url of
                  Inl err \<Rightarrow> \<lparr> stdout = [], exitCode = 1 \<rparr>
                | Inr content \<Rightarrow>
                    \<lparr> stdout = content @ [CHR 0x0A],
                      exitCode = (case closeError of None \<Rightarrow> 0 | Some err \<Rightarrow> 1) \<rparr>))"

section \<open>Paths through the handler\<close>

text \<open>
  An event settles the watch promise when its callback calls \<open>resolve\<close> or
  \<open>reject\<close> on a pending promise: a rejected watch call, a pod event in a terminal
  phase, or a done callback whose error is not of type \<open>'aborted'\<close>.
\<close>

fun settles :: "watch_event \<Rightarrow> bool" where
  "settles WatchStarted = False"
| "settles (WatchRejected e) = True"
| "settles (PodEvent ty p) = isTerminal (phaseOf p)"
| "settles (StreamDone e) = (errType e \<noteq> Some ''aborted'')"

definition quiet :: "watch_event list \<Rightarrow> bool" where
  "quiet evs = list_all (\<lambda>e. \<not> settles e) evs"

definition quietChunks :: "watch_event list list \<Rightarrow> bool" where
  "quietChunks cs = list_all quiet cs"

text \<open>How the first settling event of a list settles the promise.\<close>

fun firstSettlement :: "watch_event list \<Rightarrow> settlement option" where
  "firstSettlement [] = None"
| "firstSettlement (WatchStarted # es) = firstSettlement es"
| "firstSettlement (WatchRejected e # es) = Some (Rejected e)"
| "firstSettlement (PodEvent ty p # es) =
     (if isTerminal (phaseOf p) then Some Resolved else firstSettlement es)"
| "firstSettlement (StreamDone e # es) =
     (if errType e \<noteq> Some ''aborted'' then Some (Rejected e) else firstSettlement es)"

text \<open>
  The events whose callbacks run before the handler resumes: the chunks up to and
  including the first one that settles the promise.
\<close>

fun delivered :: "watch_event list list \<Rightarrow> watch_event list" where
  "delivered [] = []"
| "delivered (c # cs) = (if quiet c then c @ delivered cs else c)"

text \<open>
  The number of terminal pod events of a list whose callback finds the watch request
  established, \<open>est\<close> telling whether it is established before the list.
\<close>

fun chunkAborts :: "bool \<Rightarrow> watch_event list \<Rightarrow> nat" where
  "chunkAborts est [] = 0"
| "chunkAborts est (WatchStarted # es) = chunkAborts True es"
| "chunkAborts est (PodEvent ty p # es) =
     (if isTerminal (phaseOf p) \<and> est then 1 else 0) + chunkAborts est es"
| "chunkAborts est (e # es) = chunkAborts est es"

text \<open>The name of the last pod event of a list, or \<open>n\<close> when it has none.\<close>

fun lastName :: "string \<Rightarrow> watch_event list \<Rightarrow> string" where
  "lastName n [] = n"
| "lastName n (PodEvent ty p # es) = lastName (metadata_name p) es"
| "lastName n (e # es) = lastName n es"

text \<open>The names of all pod events of a list, and of the first one.\<close>

fun observedNames :: "watch_event list \<Rightarrow> string list" where
  "observedNames [] = []"
| "observedNames (PodEvent ty p # es) = metadata_name p # observedNames es"
| "observedNames (e # es) = observedNames es"

definition firstObservedName :: "watch_event list \<Rightarrow> string option" where
  "firstObservedName evs = (case observedNames evs of [] \<Rightarrow> None | n # ns \<Rightarrow> Some n)"

text \<open>The two requests every call makes once the create call has succeeded.\<close>

definition submitted :: "variant \<Rightarrow> process_env \<Rightarrow> cluster \<Rightarrow> string \<Rightarrow> api_call list" where
  "submitted v penv k url =
     [CreateUnit (NAMESPACE penv) (buildManifest v (unitName v (now k)) url),
      WatchPods (NAMESPACE penv) (selector v (unitName v (now k)))]"

text \<open>\<open>n\<close> calls of \<open>abort()\<close>.\<close>

definition abortCalls :: "nat \<Rightarrow> api_call list" where
  "abortCalls n = replicate n AbortWatch"

text \<open>
  The pod whose log is read when the pod event \<open>p\<close> has settled the watch and the
  events \<open>r\<close> follow it in its chunk: the created pod in the pod server, the pod of the
  last pod event among \<open>p\<close> and \<open>r\<close> in the job server.
\<close>

definition extractTarget :: "variant \<Rightarrow> cluster \<Rightarrow> pod \<Rightarrow> watch_event list \<Rightarrow> string" where
  "extractTarget v k p r =
     (case v of PodVariant \<Rightarrow> unitName v (now k)
      | JobVariant \<Rightarrow> lastName (metadata_name p) r)"


fun extractedNames :: "api_call list \<Rightarrow> string list" where
  "extractedNames [] = []"
| "extractedNames (ReadPodLog ns n c # cs) = n # extractedNames cs"
| "extractedNames (c # cs) = extractedNames cs"

section \<open>Example clusters\<close>

definition podInPhase :: "string \<Rightarrow> string \<Rightarrow> pod" where
  "podInPhase n ph = \<lparr> metadata_name = n, status = Some \<lparr> phase = Some ph \<rparr> \<rparr>"

definition podWithoutStatus :: "string \<Rightarrow> pod" where
  "podWithoutStatus n = \<lparr> metadata_name = n, status = None \<rparr>"

definition podWithoutPhase :: "string \<Rightarrow> pod" where
  "podWithoutPhase n = \<lparr> metadata_name = n, status = Some \<lparr> phase = None \<rparr> \<rparr>"

definition notFound :: js_error where
  "notFound = JsError ''Error'' None ''HTTP-Code: 404''"

definition forbidden :: js_error where
  "forbidden = JsError ''Error'' None ''HTTP-Code: 403''"

definition socketHangUp :: js_error where
  "socketHangUp = JsError ''Error'' None ''socket hang up''"

text \<open>A log store holding \<open>out\<close> for the pod \<open>n\<close> and nothing else.\<close>

definition logsOf :: "string \<Rightarrow> string \<Rightarrow> string \<Rightarrow> js_error + string" where
  "logsOf n out m = (if m = n then Inr out else Inl notFound)"

definition clusterAt ::
  "nat \<Rightarrow> watch_event list list \<Rightarrow> (string \<Rightarrow> js_error + string) \<Rightarrow> cluster" where
  "clusterAt t evs logs =
     \<lparr> now = t, createError = None, events = evs, podLogs = logs,
       deleteError = (\<lambda>n. None) \<rparr>"

definition rejectingCluster :: "nat \<Rightarrow> js_error \<Rightarrow> cluster" where
  "rejectingCluster t err =
     \<lparr> now = t, createError = Some err, events = [], podLogs = (\<lambda>n. Inl notFound),
       deleteError = (\<lambda>n. None) \<rparr>"


text \<open>
  Event streams for a pod \<open>n\<close>, one event to a chunk: the watch is established and the
  pod is seen pending, then running.
\<close>

definition pendingPrefix :: "string \<Rightarrow> watch_event list list" where
  "pendingPrefix n = [[WatchStarted], [PodEvent ''ADDED'' (podInPhase n ''Pending'')]]"

definition runningPrefix :: "string \<Rightarrow> watch_event list list" where
  "runningPrefix n =
     [[WatchStarted], [PodEvent ''ADDED'' (podInPhase n ''Pending'')],
      [PodEvent ''MODIFIED'' (podInPhase n ''Running'')]]"


section \<open>Facts about the callbacks of a chunk\<close>

lemma isTerminal_iff:
  "isTerminal ph \<longleftrightarrow> ph = Some ''Succeeded'' \<or> ph = Some ''Failed''"
  by (cases ph) (auto simp: isTerminal_def orEmpty_def)

lemma runChunk_Nil [simp]: "runChunk v [] s = s"
  by (simp add: runChunk_def)

lemma runChunk_Cons [simp]: "runChunk v (e # es) s = runChunk v es (onEvent v e s)"
  by (simp add: runChunk_def)

lemma runChunk_append: "runChunk v (xs @ ys) s = runChunk v ys (runChunk v xs s)"
  by (simp add: runChunk_def)

lemma quiet_Nil [simp]: "quiet []"
  by (simp add: quiet_def)

lemma quiet_Cons [simp]: "quiet (e # es) \<longleftrightarrow> \<not> settles e \<and> quiet es"
  by (simp add: quiet_def)

lemma quiet_append [simp]: "quiet (xs @ ys) \<longleftrightarrow> quiet xs \<and> quiet ys"
  by (simp add: quiet_def)

lemma quietChunks_concat: "quietChunks cs \<longleftrightarrow> quiet (concat cs)"
  by (induction cs) (simp_all add: quietChunks_def)

lemma calls_onEvent:
  "calls (onEvent v e s) = calls s @ abortCalls (chunkAborts (requestRef s) [e])"
  by (cases e; cases v)
     (simp_all add: abortCalls_def onPodEvent_def onDone_def reject_def resolve_def
        abortRequest_def clearTimeout_def Let_def)

lemma requestRef_onEvent:
  "requestRef (onEvent v e s) = (requestRef s \<or> e = WatchStarted)"
  by (cases e; cases v)
     (simp_all add: onPodEvent_def onDone_def reject_def resolve_def
        abortRequest_def clearTimeout_def Let_def)

lemma podName_onEvent:
  "podName (onEvent v e s) =
     (case v of PodVariant \<Rightarrow> podName s | JobVariant \<Rightarrow> lastName (podName s) [e])"
  by (cases e; cases v)
     (simp_all add: onPodEvent_def onDone_def reject_def resolve_def
        abortRequest_def clearTimeout_def Let_def)

lemma settled_onEvent:
  "settled (onEvent v e s) =
     (case settled s of None \<Rightarrow> firstSettlement [e] | Some x \<Rightarrow> Some x)"
  by (cases e; cases v; cases "settled s")
     (simp_all add: onPodEvent_def onDone_def reject_def resolve_def
        abortRequest_def clearTimeout_def Let_def)

lemma timerArmed_onEvent:
  "\<not> settles e \<Longrightarrow> timerArmed (onEvent v e s) = timerArmed s"
  by (cases e; cases v) (simp_all add: onPodEvent_def onDone_def Let_def)

lemma chunkAborts_Cons:
  "chunkAborts est (e # es) = chunkAborts est [e] + chunkAborts (est \<or> e = WatchStarted) es"
  by (cases e) simp_all

lemma calls_runChunk:
  "calls (runChunk v es s) = calls s @ abortCalls (chunkAborts (requestRef s) es)"
proof (induction es arbitrary: s)
  case Nil
  show ?case by (simp add: abortCalls_def)
next
  case (Cons e es)
  have "calls (runChunk v (e # es) s)
      = calls s @ abortCalls (chunkAborts (requestRef s) [e])
          @ abortCalls (chunkAborts (requestRef s \<or> e = WatchStarted) es)"
    by (simp add: Cons.IH calls_onEvent requestRef_onEvent)
  also have "\<dots> = calls s @ abortCalls (chunkAborts (requestRef s) (e # es))"
    using chunkAborts_Cons[of "requestRef s" e es] by (simp add: abortCalls_def replicate_add)
  finally show ?case .
qed

lemma requestRef_runChunk:
  "requestRef (runChunk v es s) = (requestRef s \<or> WatchStarted \<in> set es)"
  by (induction es arbitrary: s) (auto simp: requestRef_onEvent)

lemma lastName_append: "lastName n (xs @ ys) = lastName (lastName n xs) ys"
  by (induction n xs rule: lastName.induct) simp_all

lemma podName_runChunk:
  "podName (runChunk v es s) =
     (case v of PodVariant \<Rightarrow> podName s | JobVariant \<Rightarrow> lastName (podName s) es)"
proof (induction es arbitrary: s)
  case Nil
  show ?case by (cases v) simp_all
next
  case (Cons e es)
  show ?case
    using lastName_append[of "podName s" "[e]" es]
    by (simp add: Cons.IH podName_onEvent split: variant.splits del: onEvent.simps)
qed

lemma settled_runChunk:
  "settled (runChunk v es s) =
     (case settled s of None \<Rightarrow> firstSettlement es | Some x \<Rightarrow> Some x)"
proof (induction es arbitrary: s)
  case Nil
  show ?case by (cases "settled s") simp_all
next
  case (Cons e es)
  have "firstSettlement (e # es)
      = (case firstSettlement [e] of None \<Rightarrow> firstSettlement es | Some x \<Rightarrow> Some x)"
    by (cases e) simp_all
  then show ?case
    by (cases "settled s"; cases "firstSettlement [e]")
       (simp_all add: Cons.IH settled_onEvent del: onEvent.simps firstSettlement.simps)
qed

lemma timerArmed_runChunk:
  "quiet es \<Longrightarrow> timerArmed (runChunk v es s) = timerArmed s"
  by (induction es arbitrary: s) (simp_all add: timerArmed_onEvent)

lemma firstSettlement_quiet: "firstSettlement es = None \<longleftrightarrow> quiet es"
  by (induction es rule: firstSettlement.induct) simp_all

lemma firstSettlement_quiet_prefix: "quiet q \<Longrightarrow> firstSettlement (q @ es) = firstSettlement es"
  by (induction q rule: firstSettlement.induct) simp_all

lemma chunkAborts_quiet_prefix:
  "quiet q \<Longrightarrow> chunkAborts est (q @ es) = chunkAborts (est \<or> WatchStarted \<in> set q) es"
  by (induction est q rule: chunkAborts.induct) simp_all

lemma chunkAborts_quiet: "quiet q \<Longrightarrow> chunkAborts est q = 0"
  by (induction est q rule: chunkAborts.induct) simp_all

lemma delivered_quiet: "quietChunks cs \<Longrightarrow> delivered cs = concat cs"
  by (induction cs) (simp_all add: quietChunks_def)

lemma delivered_settling:
  "quietChunks pre \<Longrightarrow> \<not> quiet c \<Longrightarrow> delivered (pre @ c # post) = concat pre @ c"
  by (induction pre) (simp_all add: quietChunks_def)

lemma chunks_cases:
  "quietChunks cs \<or>
   (\<exists>pre q e r post. cs = pre @ (q @ e # r) # post \<and> quietChunks pre \<and> quiet q \<and> settles e)"
proof (cases "\<exists>c\<in>set cs. \<not> quiet c")
  case True
  then obtain pre c post
    where c: "cs = pre @ c # post" "\<not> quiet c" "\<forall>x\<in>set pre. \<not> \<not> quiet x"
    using split_list_first_prop[of cs "\<lambda>c. \<not> quiet c"] by blast
  from c(2) have "\<exists>e\<in>set c. settles e" by (simp add: quiet_def list_all_iff)
  then obtain q e r where e: "c = q @ e # r" "settles e" "\<forall>x\<in>set q. \<not> settles x"
    using split_list_first_prop[of c settles] by blast
  from c(3) have "quietChunks pre" by (simp add: quietChunks_def list_all_iff)
  moreover from e(3) have "quiet q" by (simp add: quiet_def list_all_iff)
  ultimately show ?thesis using c(1) e(1,2) by blast
next
  case False
  then show ?thesis by (simp add: quietChunks_def list_all_iff)
qed

section \<open>Facts about the watch promise\<close>

lemma startWatch_sel [simp]:
  "settled (startWatch v ns name cs) = None"
  "timerArmed (startWatch v ns name cs)"
  "\<not> requestRef (startWatch v ns name cs)"
  "podName (startWatch v ns name cs) = (case v of PodVariant \<Rightarrow> name | JobVariant \<Rightarrow> [])"
  "calls (startWatch v ns name cs) = cs @ [WatchPods ns (selector v name)]"
  by (simp_all add: startWatch_def)

lemma awaitWatch_delivered:
  "settled s = None \<Longrightarrow>
   awaitWatch v cs s =
     (if quiet (delivered cs) then onTimeout (runChunk v (delivered cs) s)
      else runChunk v (delivered cs) s)"
proof (induction cs arbitrary: s)
  case Nil
  then show ?case by simp
next
  case (Cons c cs)
  show ?case
  proof (cases "quiet c")
    case True
    with Cons.prems have u: "settled (runChunk v c s) = None"
      by (simp add: settled_runChunk firstSettlement_quiet)
    from True u show ?thesis
      by (simp add: Let_def Cons.IH[OF u] runChunk_append)
  next
    case False
    with Cons.prems have "settled (runChunk v c s) \<noteq> None"
      by (simp add: settled_runChunk firstSettlement_quiet)
    with False show ?thesis by (simp add: Let_def)
  qed
qed

lemma onTimeout_pending:
  "settled s = None \<Longrightarrow> timerArmed s \<Longrightarrow>
   settled (onTimeout s) = Some (Rejected timeoutError)
   \<and> calls (onTimeout s) = calls s @ (if requestRef s then [AbortWatch] else [])
   \<and> podName (onTimeout s) = podName s"
  by (simp add: onTimeout_def reject_def abortRequest_def)

lemma awaitWatch_resolved_terminal:
  assumes "settled s = None" "settled (awaitWatch v cs s) = Some Resolved"
  shows "\<exists>ty q. PodEvent ty q \<in> set (concat cs) \<and> isTerminal (phaseOf q)"
proof -
  have sub: "set (delivered cs) \<subseteq> set (concat cs)" for cs :: "watch_event list list"
    by (induction cs) auto
  have fs: "firstSettlement es = Some Resolved \<Longrightarrow>
            \<exists>ty q. PodEvent ty q \<in> set es \<and> isTerminal (phaseOf q)" for es
    by (induction es rule: firstSettlement.induct) (auto split: if_splits)
  show ?thesis
  proof (cases "quiet (delivered cs)")
    case True
    have "settled (runChunk v (delivered cs) s) = None"
      using True assms(1) by (simp add: settled_runChunk firstSettlement_quiet)
    then have "settled (onTimeout (runChunk v (delivered cs) s)) \<noteq> Some Resolved"
      by (simp add: onTimeout_def reject_def abortRequest_def)
    with assms True show ?thesis by (simp add: awaitWatch_delivered)
  next
    case False
    with assms have "firstSettlement (delivered cs) = Some Resolved"
      by (simp add: awaitWatch_delivered settled_runChunk)
    from fs[OF this] sub[of cs] show ?thesis by blast
  qed
qed

section \<open>Facts about the handler's paths\<close>

lemma fetchUrl_submission_error:
  "createError k = Some err \<Longrightarrow>
   fetchUrl v penv k url =
     (Thrown err, [CreateUnit (NAMESPACE penv) (buildManifest v (unitName v (now k)) url)])"
  by (simp add: fetchUrl_def)

lemma fetchUrl_timeout:
  assumes "createError k = None" "quietChunks (events k)"
  shows "fetchUrl v penv k url =
     (Thrown timeoutError,
      submitted v penv k url
        @ (if WatchStarted \<in> set (concat (events k)) then [AbortWatch] else []))"
proof -
  let ?s = "startWatch v (NAMESPACE penv) (unitName v (now k))
              [CreateUnit (NAMESPACE penv) (buildManifest v (unitName v (now k)) url)]"
  let ?d = "concat (events k)"
  have q: "quiet ?d" using assms(2) by (simp add: quietChunks_concat)
  have s0: "settled ?s = None" by simp
  have w: "awaitWatch v (events k) ?s = onTimeout (runChunk v ?d ?s)"
    by (simp only: awaitWatch_delivered[OF s0] delivered_quiet[OF assms(2)] q if_True)
  have u: "settled (runChunk v ?d ?s) = None" "timerArmed (runChunk v ?d ?s)"
    using q by (simp_all add: settled_runChunk firstSettlement_quiet timerArmed_runChunk)
  have c: "calls (runChunk v ?d ?s) = submitted v penv k url"
    using q by (simp add: calls_runChunk chunkAborts_quiet abortCalls_def submitted_def)
  have r: "requestRef (runChunk v ?d ?s) = (WatchStarted \<in> set ?d)"
    by (simp add: requestRef_runChunk)
  from onTimeout_pending[OF u]
  have "settled (awaitWatch v (events k) ?s) = Some (Rejected timeoutError)"
    and "calls (awaitWatch v (events k) ?s)
       = submitted v penv k url
           @ (if WatchStarted \<in> set ?d then [AbortWatch] else [])"
    unfolding w c r by simp_all
  then show ?thesis using assms(1) by (simp add: fetchUrl_def Let_def del: awaitWatch.simps)
qed

lemma awaitWatch_settling:
  assumes "quietChunks pre" "quiet q" "settles e"
  shows "settled (awaitWatch v (pre @ (q @ e # r) # post) (startWatch v ns name cs))
           = firstSettlement [e]"
    and "calls (awaitWatch v (pre @ (q @ e # r) # post) (startWatch v ns name cs))
           = cs @ [WatchPods ns (selector v name)]
               @ abortCalls (chunkAborts (WatchStarted \<in> set (concat pre @ q)) (e # r))"
    and "podName (awaitWatch v (pre @ (q @ e # r) # post) (startWatch v ns name cs))
           = (case v of PodVariant \<Rightarrow> name | JobVariant \<Rightarrow> lastName [] (concat pre @ q @ e # r))"
proof -
  let ?s = "startWatch v ns name cs"
  let ?d = "concat pre @ q @ e # r"
  have nq: "\<not> quiet (q @ e # r)" using assms(3) by simp
  have d: "delivered (pre @ (q @ e # r) # post) = ?d"
    using delivered_settling[OF assms(1) nq] by simp
  have qp: "quiet (concat pre @ q)"
    using assms(1,2) by (simp add: quietChunks_concat)
  have nd: "\<not> quiet ?d" using assms(3) by simp
  have s0: "settled ?s = None" by simp
  have w: "awaitWatch v (pre @ (q @ e # r) # post) ?s = runChunk v ?d ?s"
    by (simp only: awaitWatch_delivered[OF s0] d nd if_False)
  have "firstSettlement ?d = firstSettlement (e # r)"
    using firstSettlement_quiet_prefix[OF qp, of "e # r"] by simp
  also have "\<dots> = firstSettlement [e]" using assms(3) by (cases e) simp_all
  finally show "settled (awaitWatch v (pre @ (q @ e # r) # post) ?s) = firstSettlement [e]"
    unfolding w by (simp add: settled_runChunk)
  have "chunkAborts False ?d = chunkAborts (WatchStarted \<in> set (concat pre @ q)) (e # r)"
    using chunkAborts_quiet_prefix[OF qp, of False "e # r"] by simp
  then show "calls (awaitWatch v (pre @ (q @ e # r) # post) ?s)
           = cs @ [WatchPods ns (selector v name)]
               @ abortCalls (chunkAborts (WatchStarted \<in> set (concat pre @ q)) (e # r))"
    unfolding w by (simp add: calls_runChunk)
  show "podName (awaitWatch v (pre @ (q @ e # r) # post) ?s)
           = (case v of PodVariant \<Rightarrow> name | JobVariant \<Rightarrow> lastName [] ?d)"
    unfolding w by (simp add: podName_runChunk split: variant.splits)
qed

lemma lastName_after_pod_event:
  "lastName n (xs @ PodEvent ty p # r) = lastName (metadata_name p) r"
  by (simp add: lastName_append)

lemma fetchUrl_terminal:
  assumes "createError k = None" "events k = pre @ (q @ PodEvent ty p # r) # post"
    "quietChunks pre" "quiet q" "isTerminal (phaseOf p)"
  shows "fetchUrl v penv k url =
     (Returned (readLogText (podLogs k (extractTarget v k p r))),
      submitted v penv k url
        @ abortCalls (chunkAborts (WatchStarted \<in> set (concat pre @ q)) (PodEvent ty p # r))
        @ [ReadPodLog (NAMESPACE penv) (extractTarget v k p r) ''fetcher'']
        @ cleanup v (NAMESPACE penv) (extractTarget v k p r)
            (deleteError k (extractTarget v k p r)))"
proof -
  have e: "settles (PodEvent ty p)" using assms(5) by simp
  have n: "lastName [] (concat pre @ q @ PodEvent ty p # r) = lastName (metadata_name p) r"
    using lastName_after_pod_event[of "[]" "concat pre @ q" ty p r] by simp
  note a = awaitWatch_settling[OF assms(3,4) e, of v r post "NAMESPACE penv"
      "unitName v (now k)"
      "[CreateUnit (NAMESPACE penv) (buildManifest v (unitName v (now k)) url)]"]
  have t: "podName (awaitWatch v (pre @ (q @ PodEvent ty p # r) # post)
             (startWatch v (NAMESPACE penv) (unitName v (now k))
                [CreateUnit (NAMESPACE penv) (buildManifest v (unitName v (now k)) url)]))
           = extractTarget v k p r"
    by (simp add: a(3) n extractTarget_def split: variant.splits)
  show ?thesis
    using assms(1,5)
    by (simp add: fetchUrl_def Let_def assms(2) a(1,2) t submitted_def
          del: awaitWatch.simps)
qed

lemma fetchUrl_stream_error:
  assumes "createError k = None" "events k = pre @ (q @ StreamDone e # r) # post"
    "quietChunks pre" "quiet q" "errType e \<noteq> Some ''aborted''"
  shows "fetchUrl v penv k url =
     (Thrown e,
      submitted v penv k url
        @ abortCalls (chunkAborts (WatchStarted \<in> set (concat pre @ q)) r))"
proof -
  have e: "settles (StreamDone e)" using assms(5) by simp
  note a = awaitWatch_settling[OF assms(3,4) e, of v r post "NAMESPACE penv"
      "unitName v (now k)"
      "[CreateUnit (NAMESPACE penv) (buildManifest v (unitName v (now k)) url)]"]
  show ?thesis
    using assms(1,5)
    by (simp add: fetchUrl_def Let_def assms(2) a submitted_def del: awaitWatch.simps)
qed

lemma fetchUrl_watch_rejected:
  assumes "createError k = None" "events k = pre @ (q @ WatchRejected e # r) # post"
    "quietChunks pre" "quiet q"
  shows "fetchUrl v penv k url =
     (Thrown e,
      submitted v penv k url
        @ abortCalls (chunkAborts (WatchStarted \<in> set (concat pre @ q)) r))"
proof -
  have e: "settles (WatchRejected e)" by simp
  note a = awaitWatch_settling[OF assms(3,4) e, of v r post "NAMESPACE penv"
      "unitName v (now k)"
      "[CreateUnit (NAMESPACE penv) (buildManifest v (unitName v (now k)) url)]"]
  show ?thesis
    using assms(1)
    by (simp add: fetchUrl_def Let_def assms(2) a submitted_def del: awaitWatch.simps)
qed

text \<open>Every call takes one of five paths.\<close>

lemma fetchUrl_paths:
  obtains
    (submission) err where "createError k = Some err"
  | (timeout) "createError k = None" "quietChunks (events k)"
  | (terminal) pre q ty p r post where "createError k = None"
      "events k = pre @ (q @ PodEvent ty p # r) # post" "quietChunks pre" "quiet q"
      "isTerminal (phaseOf p)"
  | (stream_error) pre q e r post where "createError k = None"
      "events k = pre @ (q @ StreamDone e # r) # post" "quietChunks pre" "quiet q"
      "errType e \<noteq> Some ''aborted''"
  | (watch_rejected) pre q e r post where "createError k = None"
      "events k = pre @ (q @ WatchRejected e # r) # post" "quietChunks pre" "quiet q"
proof (cases "createError k")
  case (Some err)
  then show ?thesis by (rule submission)
next
  case None
  from chunks_cases[of "events k"] show ?thesis
  proof
    assume "quietChunks (events k)"
    with None show ?thesis by (rule timeout)
  next
    assume "\<exists>pre q e r post. events k = pre @ (q @ e # r) # post \<and> quietChunks pre
              \<and> quiet q \<and> settles e"
    then obtain pre q e r post
      where d: "events k = pre @ (q @ e # r) # post" "quietChunks pre" "quiet q" "settles e"
      by blast
    show ?thesis
    proof (cases e)
      case WatchStarted
      with d(4) show ?thesis by simp
    next
      case (WatchRejected x)
      with None d show ?thesis by (intro watch_rejected[of pre q x r post]) simp_all
    next
      case (PodEvent ty p)
      with None d show ?thesis by (intro terminal[of pre q ty p r post]) simp_all
    next
      case (StreamDone x)
      with None d show ?thesis by (intro stream_error[of pre q x r post]) simp_all
    qed
  qed
qed

lemma countCalls_append [simp]: "countCalls P (xs @ ys) = countCalls P xs + countCalls P ys"
  by (simp add: countCalls_def)

lemma countCalls_Nil [simp]: "countCalls P [] = 0"
  by (simp add: countCalls_def)

lemma countCalls_Cons [simp]: "countCalls P (x # xs) = (if P x then 1 else 0) + countCalls P xs"
  by (simp add: countCalls_def)

lemma countCalls_abortCalls [simp]:
  "countCalls isAbort (abortCalls n) = n"
  "countCalls isDelete (abortCalls n) = 0"
  "countCalls isCreate (abortCalls n) = 0"
  "countCalls isWatch (abortCalls n) = 0"
  "countCalls isReadLog (abortCalls n) = 0"
  by (simp_all add: abortCalls_def countCalls_def)

lemma filter_abortCalls [simp]:
  "filter isDelete (abortCalls n) = []"
  "filter isReadLog (abortCalls n) = []"
  by (simp_all add: abortCalls_def)

lemma countCalls_submitted [simp]:
  "countCalls isAbort (submitted v penv k url) = 0"
  "countCalls isDelete (submitted v penv k url) = 0"
  "countCalls isCreate (submitted v penv k url) = 1"
  "countCalls isWatch (submitted v penv k url) = 1"
  "countCalls isReadLog (submitted v penv k url) = 0"
  by (simp_all add: submitted_def)

lemma countCalls_cleanup [simp]:
  "countCalls isAbort (cleanup v ns n a) = 0"
  "countCalls isDelete (cleanup v ns n a) = (if v = PodVariant then 1 else 0)"
  "countCalls isCreate (cleanup v ns n a) = 0"
  "countCalls isWatch (cleanup v ns n a) = 0"
  "countCalls isReadLog (cleanup v ns n a) = 0"
  by (cases v; cases a; simp)+

lemma cleanup_PodVariant [simp]: "cleanup PodVariant ns n a = [DeletePod ns n]"
  by (cases a) simp_all





lemma extractedNames_append: "extractedNames (xs @ ys) = extractedNames xs @ extractedNames ys"
  by (induction xs rule: extractedNames.induct) simp_all

lemma extractedNames_submitted: "extractedNames (submitted v penv k url) = []"
  by (simp add: submitted_def)

lemma extractedNames_abortCalls: "extractedNames (abortCalls n) = []"
  by (induction n) (simp_all add: abortCalls_def)






lemma observedNames_append: "observedNames (xs @ ys) = observedNames xs @ observedNames ys"
  by (induction xs rule: observedNames.induct) simp_all

lemma lastName_observed: "lastName n es \<in> insert n (set (observedNames es))"
  by (induction n es rule: lastName.induct) auto

text \<open>The watch promise always settles: every call returns or throws.\<close>

lemma fetchUrl_never_pending: "fst (fetchUrl v penv k url) \<noteq> Pending"
  by (cases rule: fetchUrl_paths[of k])
     (simp_all add: fetchUrl_submission_error fetchUrl_timeout fetchUrl_terminal
        fetchUrl_stream_error fetchUrl_watch_rejected)

section \<open>Facts about calls in flight\<close>




lemmas run_defs =
  fetchUrl_def clusterAt_def rejectingCluster_def startWatch_def Let_def
  onPodEvent_def onDone_def onTimeout_def resolve_def reject_def abortRequest_def
  clearTimeout_def phaseOf_def orEmpty_def isTerminal_def podInPhase_def
  podWithoutStatus_def podWithoutPhase_def pendingPrefix_def runningPrefix_def
  quiet_def quietChunks_def logsOf_def readLogText_def NAMESPACE_def

section \<open>Cleanup\<close>

text \<open>
  C1, as stated, fails: in the pod server a call whose watch times out throws
  \<open>Error('Timeout')\<close> and sends no deletion; in the job server, whose deletion call is
  commented out, even a call that ends in \<open>Succeeded\<close> sends none.
\<close>

theorem cleanup_not_on_every_path:
  "fst (fetchUrl PodVariant Map.empty
          (clusterAt 1700000000123 (pendingPrefix ''fetch-pod-1700000000123'') (\<lambda>n. Inr []))
          ''https://example.com'') = Thrown timeoutError
   \<and> countCalls isDelete
         (snd (fetchUrl PodVariant Map.empty
                 (clusterAt 1700000000123 (pendingPrefix ''fetch-pod-1700000000123'') (\<lambda>n. Inr []))
                 ''https://example.com'')) = 0
   \<and> fst (fetchUrl JobVariant Map.empty
          (clusterAt 1700000000123
             (runningPrefix ''fetch-job-1700000000123-x7k2p''
                @ [[PodEvent ''MODIFIED'' (podInPhase ''fetch-job-1700000000123-x7k2p'' ''Succeeded'')]])
             (\<lambda>n. Inr ''<html>...</html>''))
          ''https://example.com'') = Returned ''<html>...</html>''
   \<and> countCalls isDelete
         (snd (fetchUrl JobVariant Map.empty
                 (clusterAt 1700000000123
                    (runningPrefix ''fetch-job-1700000000123-x7k2p''
                       @ [[PodEvent ''MODIFIED''
                             (podInPhase ''fetch-job-1700000000123-x7k2p'' ''Succeeded'')]])
                    (\<lambda>n. Inr ''<html>...</html>''))
                 ''https://example.com'')) = 0"
  by (simp add: run_defs)

text \<open>
  C1, amended: in the pod server, on every path on which a terminal phase ends the watch
  (whatever the log read and the deletion answer), exactly one deletion is sent, for the
  pod that the call created; no path sends more than one; the job server sends none.
\<close>

theorem cleanup_after_terminal_phase:
  "(createError k = None \<and> events k = pre @ (q @ PodEvent ty p # r) # post
      \<and> quietChunks pre \<and> quiet q \<and> isTerminal (phaseOf p)
    \<longrightarrow> filter isDelete (snd (fetchUrl PodVariant penv k url))
          = [DeletePod (NAMESPACE penv) (unitName PodVariant (now k))])
   \<and> countCalls isDelete (snd (fetchUrl PodVariant penv k url)) \<le> 1
   \<and> countCalls isDelete (snd (fetchUrl JobVariant penv k url)) = 0"
proof (intro conjI impI)
  assume "createError k = None \<and> events k = pre @ (q @ PodEvent ty p # r) # post
      \<and> quietChunks pre \<and> quiet q \<and> isTerminal (phaseOf p)"
  then show "filter isDelete (snd (fetchUrl PodVariant penv k url))
          = [DeletePod (NAMESPACE penv) (unitName PodVariant (now k))]"
    by (simp add: fetchUrl_terminal[of k pre q ty p r post] submitted_def extractTarget_def)
next
  show "countCalls isDelete (snd (fetchUrl PodVariant penv k url)) \<le> 1"
    by (cases rule: fetchUrl_paths[of k])
       (simp_all add: fetchUrl_submission_error fetchUrl_timeout fetchUrl_terminal
          fetchUrl_stream_error fetchUrl_watch_rejected)
next
  show "countCalls isDelete (snd (fetchUrl JobVariant penv k url)) = 0"
    by (cases rule: fetchUrl_paths[of k])
       (simp_all add: fetchUrl_submission_error fetchUrl_timeout fetchUrl_terminal
          fetchUrl_stream_error fetchUrl_watch_rejected)
qed

theorem cleanup_after_terminal_phase_witness:
  "createError (clusterAt 1700000000123
       (runningPrefix ''fetch-pod-1700000000123''
          @ [[PodEvent ''MODIFIED'' (podInPhase ''fetch-pod-1700000000123'' ''Failed'')]])
       (\<lambda>n. Inl notFound)) = None
   \<and> quietChunks (runningPrefix ''fetch-pod-1700000000123'')
   \<and> isTerminal (phaseOf (podInPhase ''fetch-pod-1700000000123'' ''Failed''))
   \<and> filter isDelete (snd (fetchUrl PodVariant Map.empty
        (clusterAt 1700000000123
           (runningPrefix ''fetch-pod-1700000000123''
              @ [[PodEvent ''MODIFIED'' (podInPhase ''fetch-pod-1700000000123'' ''Failed'')]])
           (\<lambda>n. Inl notFound))
        ''https://example.com''))
      = [DeletePod ''default'' ''fetch-pod-1700000000123'']"
  using cleanup_after_terminal_phase
    [where k = "clusterAt 1700000000123
           (runningPrefix ''fetch-pod-1700000000123''
              @ [[PodEvent ''MODIFIED'' (podInPhase ''fetch-pod-1700000000123'' ''Failed'')]])
           (\<lambda>n. Inl notFound)"
       and pre = "runningPrefix ''fetch-pod-1700000000123''" and q = "[]"
       and ty = "''MODIFIED''" and p = "podInPhase ''fetch-pod-1700000000123'' ''Failed''"
       and r = "[]" and post = "[]" and penv = Map.empty and url = "''https://example.com''"]
  by (simp add: run_defs showNat.simps digit_def)

section \<open>Submission errors\<close>

text \<open>
  C5: when the create call is rejected, the handler rethrows that error at once. The
  create request is the only request of the call: nothing is retried, no watch is opened,
  no log is read and nothing is deleted.
\<close>

theorem submission_error_propagates:
  "createError k = Some err \<Longrightarrow>
   fetchUrl v penv k url =
     (Thrown err, [CreateUnit (NAMESPACE penv) (buildManifest v (unitName v (now k)) url)])
   \<and> countCalls isCreate (snd (fetchUrl v penv k url)) = 1
   \<and> countCalls isWatch (snd (fetchUrl v penv k url)) = 0
   \<and> countCalls isReadLog (snd (fetchUrl v penv k url)) = 0
   \<and> countCalls isDelete (snd (fetchUrl v penv k url)) = 0"
  by (simp add: fetchUrl_submission_error)

theorem submission_error_propagates_witness:
  "createError (rejectingCluster 1700000000123 forbidden) = Some forbidden
   \<and> fetchUrl PodVariant Map.empty (rejectingCluster 1700000000123 forbidden) ''https://example.com''
     = (Thrown forbidden,
        [CreateUnit ''default''
           (buildManifest PodVariant ''fetch-pod-1700000000123'' ''https://example.com'')])
   \<and> countCalls isWatch
        (snd (fetchUrl PodVariant Map.empty (rejectingCluster 1700000000123 forbidden)
                ''https://example.com'')) = 0
   \<and> countCalls isDelete
        (snd (fetchUrl PodVariant Map.empty (rejectingCluster 1700000000123 forbidden)
                ''https://example.com'')) = 0"
  using submission_error_propagates
    [of "rejectingCluster 1700000000123 forbidden" forbidden PodVariant Map.empty
        "''https://example.com''"]
  by (simp add: rejectingCluster_def NAMESPACE_def showNat.simps digit_def)

section \<open>Closing the watch\<close>

text \<open>
  C2, as stated, fails: when the watch ends in a stream error, the done callback rejects
  without calling \<open>abort()\<close>; and when two terminal events arrive in one chunk, both
  callbacks call \<open>abort()\<close> before the handler resumes.
\<close>

theorem abort_not_exactly_once:
  "fst (fetchUrl PodVariant Map.empty
          (clusterAt 1700000000123
             (pendingPrefix ''fetch-pod-1700000000123'' @ [[StreamDone socketHangUp]])
             (\<lambda>n. Inr []))
          ''https://example.com'') = Thrown socketHangUp
   \<and> countCalls isAbort
         (snd (fetchUrl PodVariant Map.empty
                 (clusterAt 1700000000123
                    (pendingPrefix ''fetch-pod-1700000000123'' @ [[StreamDone socketHangUp]])
                    (\<lambda>n. Inr []))
                 ''https://example.com'')) = 0
   \<and> countCalls isAbort
         (snd (fetchUrl PodVariant Map.empty
                 (clusterAt 1700000000123
                    (pendingPrefix ''fetch-pod-1700000000123''
                       @ [[PodEvent ''MODIFIED'' (podInPhase ''fetch-pod-1700000000123'' ''Succeeded''),
                           PodEvent ''MODIFIED'' (podInPhase ''fetch-pod-1700000000123'' ''Succeeded'')]])
                    (\<lambda>n. Inr []))
                 ''https://example.com'')) = 2"
  by (simp add: run_defs socketHangUp_def)

text \<open>
  C2, amended: up to the moment the handler resumes from the watch, \<open>abort()\<close> is called
  once for each terminal pod event whose callback runs while the watch request is
  established: in the chunk that ends the watch on a terminal event, once for that event
  and once more for every further terminal event of the chunk; behind a stream error or
  a rejected watch call, only for terminal events that follow in the same chunk, the
  done callback and the rejection themselves aborting nothing. On the deadline it is
  called once if the watch request is established, and not at all if it is not.
\<close>

theorem abort_calls_on_exit:
  "(createError k = None \<and> events k = pre @ (q @ PodEvent ty p # r) # post
      \<and> quietChunks pre \<and> quiet q \<and> isTerminal (phaseOf p)
    \<longrightarrow> countCalls isAbort (snd (fetchUrl v penv k url))
          = (if WatchStarted \<in> set (concat pre @ q) then 1 else 0)
            + chunkAborts (WatchStarted \<in> set (concat pre @ q)) r)
   \<and> (createError k = None \<and> quietChunks (events k)
    \<longrightarrow> countCalls isAbort (snd (fetchUrl v penv k url))
          = (if WatchStarted \<in> set (concat (events k)) then 1 else 0))
   \<and> (createError k = None \<and> events k = pre @ (q @ StreamDone e # r) # post
      \<and> quietChunks pre \<and> quiet q \<and> errType e \<noteq> Some ''aborted''
    \<longrightarrow> countCalls isAbort (snd (fetchUrl v penv k url))
          = chunkAborts (WatchStarted \<in> set (concat pre @ q)) r)
   \<and> (createError k = None \<and> events k = pre @ (q @ WatchRejected e # r) # post
      \<and> quietChunks pre \<and> quiet q
    \<longrightarrow> countCalls isAbort (snd (fetchUrl v penv k url))
          = chunkAborts (WatchStarted \<in> set (concat pre @ q)) r)"
proof (intro conjI impI)
  assume "createError k = None \<and> events k = pre @ (q @ PodEvent ty p # r) # post
      \<and> quietChunks pre \<and> quiet q \<and> isTerminal (phaseOf p)"
  then show "countCalls isAbort (snd (fetchUrl v penv k url))
          = (if WatchStarted \<in> set (concat pre @ q) then 1 else 0)
            + chunkAborts (WatchStarted \<in> set (concat pre @ q)) r"
    by (simp add: fetchUrl_terminal[of k pre q ty p r post])
next
  assume "createError k = None \<and> quietChunks (events k)"
  then show "countCalls isAbort (snd (fetchUrl v penv k url))
          = (if WatchStarted \<in> set (concat (events k)) then 1 else 0)"
    by (simp add: fetchUrl_timeout)
next
  assume "createError k = None \<and> events k = pre @ (q @ StreamDone e # r) # post
      \<and> quietChunks pre \<and> quiet q \<and> errType e \<noteq> Some ''aborted''"
  then show "countCalls isAbort (snd (fetchUrl v penv k url))
          = chunkAborts (WatchStarted \<in> set (concat pre @ q)) r"
    by (simp add: fetchUrl_stream_error[of k pre q e r post])
next
  assume "createError k = None \<and> events k = pre @ (q @ WatchRejected e # r) # post
      \<and> quietChunks pre \<and> quiet q"
  then show "countCalls isAbort (snd (fetchUrl v penv k url))
          = chunkAborts (WatchStarted \<in> set (concat pre @ q)) r"
    by (simp add: fetchUrl_watch_rejected[of k pre q e r post])
qed

theorem abort_calls_on_exit_witness:
  "quietChunks (runningPrefix ''fetch-job-1700000000123-x7k2p'')
   \<and> isTerminal (phaseOf (podInPhase ''fetch-job-1700000000123-x7k2p'' ''Succeeded''))
   \<and> countCalls isAbort (snd (fetchUrl JobVariant Map.empty
        (clusterAt 1700000000123
           (runningPrefix ''fetch-job-1700000000123-x7k2p''
              @ [[PodEvent ''MODIFIED'' (podInPhase ''fetch-job-1700000000123-x7k2p'' ''Succeeded'')]])
           (\<lambda>n. Inr []))
        ''https://example.com'')) = 1
   \<and> countCalls isAbort (snd (fetchUrl JobVariant Map.empty
        (clusterAt 1700000000123
           (runningPrefix ''fetch-job-1700000000123-x7k2p''
              @ [[PodEvent ''MODIFIED'' (podInPhase ''fetch-job-1700000000123-x7k2p'' ''Succeeded''),
                  PodEvent ''MODIFIED'' (podInPhase ''fetch-job-1700000000123-x7k2p'' ''Succeeded'')]])
           (\<lambda>n. Inr []))
        ''https://example.com'')) = 2
   \<and> countCalls isAbort (snd (fetchUrl JobVariant Map.empty
        (clusterAt 1700000000123 (runningPrefix ''fetch-job-1700000000123-x7k2p'') (\<lambda>n. Inr []))
        ''https://example.com'')) = 1
   \<and> errType socketHangUp \<noteq> Some ''aborted''
   \<and> countCalls isAbort (snd (fetchUrl JobVariant Map.empty
        (clusterAt 1700000000123
           (runningPrefix ''fetch-job-1700000000123-x7k2p'' @ [[StreamDone socketHangUp]])
           (\<lambda>n. Inr []))
        ''https://example.com'')) = 0
   \<and> countCalls isAbort (snd (fetchUrl JobVariant Map.empty
        (clusterAt 1700000000123 [[WatchRejected forbidden]] (\<lambda>n. Inr []))
        ''https://example.com'')) = 0"
  using
    abort_calls_on_exit
      [where k = "clusterAt 1700000000123
             (runningPrefix ''fetch-job-1700000000123-x7k2p''
                @ [[PodEvent ''MODIFIED'' (podInPhase ''fetch-job-1700000000123-x7k2p'' ''Succeeded'')]])
             (\<lambda>n. Inr [])"
         and pre = "runningPrefix ''fetch-job-1700000000123-x7k2p''" and q = "[]"
         and ty = "''MODIFIED''"
         and p = "podInPhase ''fetch-job-1700000000123-x7k2p'' ''Succeeded''"
         and r = "[]" and post = "[]" and v = JobVariant and penv = Map.empty
         and url = "''https://example.com''"]
    abort_calls_on_exit
      [where k = "clusterAt 1700000000123
             (runningPrefix ''fetch-job-1700000000123-x7k2p''
                @ [[PodEvent ''MODIFIED'' (podInPhase ''fetch-job-1700000000123-x7k2p'' ''Succeeded''),
                    PodEvent ''MODIFIED'' (podInPhase ''fetch-job-1700000000123-x7k2p'' ''Succeeded'')]])
             (\<lambda>n. Inr [])"
         and pre = "runningPrefix ''fetch-job-1700000000123-x7k2p''" and q = "[]"
         and ty = "''MODIFIED''"
         and p = "podInPhase ''fetch-job-1700000000123-x7k2p'' ''Succeeded''"
         and r = "[PodEvent ''MODIFIED'' (podInPhase ''fetch-job-1700000000123-x7k2p'' ''Succeeded'')]"
         and post = "[]" and v = JobVariant and penv = Map.empty
         and url = "''https://example.com''"]
    abort_calls_on_exit
      [where k = "clusterAt 1700000000123 (runningPrefix ''fetch-job-1700000000123-x7k2p'')
             (\<lambda>n. Inr [])"
         and v = JobVariant and penv = Map.empty and url = "''https://example.com''"]
    abort_calls_on_exit
      [where k = "clusterAt 1700000000123
             (runningPrefix ''fetch-job-1700000000123-x7k2p'' @ [[StreamDone socketHangUp]])
             (\<lambda>n. Inr [])"
         and pre = "runningPrefix ''fetch-job-1700000000123-x7k2p''" and q = "[]"
         and e = socketHangUp and r = "[]" and post = "[]"
         and v = JobVariant and penv = Map.empty and url = "''https://example.com''"]
    abort_calls_on_exit
      [where k = "clusterAt 1700000000123 [[WatchRejected forbidden]] (\<lambda>n. Inr [])"
         and pre = "[]" and q = "[]" and e = forbidden and r = "[]" and post = "[]"
         and v = JobVariant and penv = Map.empty and url = "''https://example.com''"]
  by (simp add: run_defs socketHangUp_def forbidden_def)

section \<open>The result\<close>




section \<open>The deadline\<close>

text \<open>
  C4, as stated, fails: when the deadline passes before the watch request has been
  established, the call ends in \<open>Error('Timeout')\<close> but \<open>requestRef\<close> is still
  undefined, so the watch request that was issued is never aborted.
\<close>

theorem timeout_before_watch_established:
  "fetchUrl PodVariant Map.empty (clusterAt 1700000000123 [] (\<lambda>n. Inr []))
     ''https://example.com''
   = (Thrown timeoutError,
      [CreateUnit ''default''
         (buildManifest PodVariant ''fetch-pod-1700000000123'' ''https://example.com''),
       WatchPods ''default'' ''metadata.name=fetch-pod-1700000000123''])
   \<and> countCalls isAbort
         (snd (fetchUrl PodVariant Map.empty (clusterAt 1700000000123 [] (\<lambda>n. Inr []))
                 ''https://example.com'')) = 0"
  by (simp add: run_defs showNat.simps digit_def)

text \<open>
  C4, amended: when the deadline passes with the watch still pending (no terminal phase,
  no stream error and no rejected watch call before it), the handler throws
  \<open>Error('Timeout')\<close>, whereas a watch ended by a \<open>Failed\<close> phase makes it return
  the text of the log read; the timer callback aborts the watch before rejecting when the
  watch request has been established, and aborts nothing when it has not.
\<close>

theorem timeout_outcome:
  "(createError k = None \<and> quietChunks (events k)
    \<longrightarrow> fetchUrl v penv k url
          = (Thrown timeoutError,
             submitted v penv k url
               @ (if WatchStarted \<in> set (concat (events k)) then [AbortWatch] else [])))
   \<and> (createError k = None \<and> events k = pre @ (q @ PodEvent ty p # r) # post
      \<and> quietChunks pre \<and> quiet q \<and> phaseOf p = Some ''Failed''
    \<longrightarrow> fst (fetchUrl v penv k url) = Returned (readLogText (podLogs k (extractTarget v k p r)))
        \<and> fst (fetchUrl v penv k url) \<noteq> Thrown timeoutError)"
proof (intro conjI impI)
  assume "createError k = None \<and> quietChunks (events k)"
  then show "fetchUrl v penv k url
          = (Thrown timeoutError,
             submitted v penv k url
               @ (if WatchStarted \<in> set (concat (events k)) then [AbortWatch] else []))"
    by (simp add: fetchUrl_timeout)
next
  assume a: "createError k = None \<and> events k = pre @ (q @ PodEvent ty p # r) # post
      \<and> quietChunks pre \<and> quiet q \<and> phaseOf p = Some ''Failed''"
  then have t: "isTerminal (phaseOf p)" by (simp add: isTerminal_iff)
  from a t show "fst (fetchUrl v penv k url)
      = Returned (readLogText (podLogs k (extractTarget v k p r)))"
    by (simp add: fetchUrl_terminal[of k pre q ty p r post])
  then show "fst (fetchUrl v penv k url) \<noteq> Thrown timeoutError" by simp
qed

theorem timeout_outcome_witness:
  "quietChunks (runningPrefix ''fetch-pod-1700000000123'')
   \<and> fetchUrl PodVariant Map.empty
        (clusterAt 1700000000123 (runningPrefix ''fetch-pod-1700000000123'') (\<lambda>n. Inr []))
        ''https://example.com''
     = (Thrown timeoutError,
        [CreateUnit ''default''
           (buildManifest PodVariant ''fetch-pod-1700000000123'' ''https://example.com''),
         WatchPods ''default'' ''metadata.name=fetch-pod-1700000000123'',
         AbortWatch])
   \<and> phaseOf (podInPhase ''fetch-pod-1700000000123'' ''Failed'') = Some ''Failed''
   \<and> fst (fetchUrl PodVariant Map.empty
        (clusterAt 1700000000123
           (runningPrefix ''fetch-pod-1700000000123''
              @ [[PodEvent ''MODIFIED'' (podInPhase ''fetch-pod-1700000000123'' ''Failed'')]])
           (logsOf ''fetch-pod-1700000000123'' ''Error fetching URL''))
        ''https://example.com'') = Returned ''Error fetching URL''"
  using
    timeout_outcome
      [where k = "clusterAt 1700000000123 (runningPrefix ''fetch-pod-1700000000123'')
             (\<lambda>n. Inr [])"
         and v = PodVariant and penv = Map.empty and url = "''https://example.com''"]
    timeout_outcome
      [where k = "clusterAt 1700000000123
             (runningPrefix ''fetch-pod-1700000000123''
                @ [[PodEvent ''MODIFIED'' (podInPhase ''fetch-pod-1700000000123'' ''Failed'')]])
             (logsOf ''fetch-pod-1700000000123'' ''Error fetching URL'')"
         and v = PodVariant and penv = Map.empty and url = "''https://example.com''"
         and pre = "runningPrefix ''fetch-pod-1700000000123''" and q = "[]"
         and ty = "''MODIFIED''" and p = "podInPhase ''fetch-pod-1700000000123'' ''Failed''"
         and r = "[]" and post = "[]"]
  by (simp add: run_defs submitted_def extractTarget_def showNat.simps digit_def)

section \<open>Extraction errors\<close>

text \<open>
  C6, as stated, fails for the job server: when the log read fails it returns the error
  text, but its deletion call is commented out, so no cleanup follows.
\<close>

theorem job_server_no_cleanup_after_extraction_error:
  "fetchUrl JobVariant Map.empty
     (clusterAt 1700000000123
        (runningPrefix ''fetch-job-1700000000123-x7k2p''
           @ [[PodEvent ''MODIFIED'' (podInPhase ''fetch-job-1700000000123-x7k2p'' ''Succeeded'')]])
        (\<lambda>n. Inl notFound))
     ''https://example.com''
   = (Returned ''Error retrieving logs: Error: HTTP-Code: 404'',
      [CreateUnit ''default''
         (buildManifest JobVariant ''fetch-job-1700000000123'' ''https://example.com''),
       WatchPods ''default'' ''job-name=fetch-job-1700000000123'',
       AbortWatch,
       ReadPodLog ''default'' ''fetch-job-1700000000123-x7k2p'' ''fetcher''])
   \<and> countCalls isDelete
        (snd (fetchUrl JobVariant Map.empty
           (clusterAt 1700000000123
              (runningPrefix ''fetch-job-1700000000123-x7k2p''
                 @ [[PodEvent ''MODIFIED''
                       (podInPhase ''fetch-job-1700000000123-x7k2p'' ''Succeeded'')]])
              (\<lambda>n. Inl notFound))
           ''https://example.com'')) = 0"
  by (simp add: run_defs notFound_def showNat.simps digit_def)

text \<open>
  C6, amended: when the log read fails after a terminal phase ended the watch, the
  handler does not throw: it returns the text \<open>Error retrieving logs: \<close> followed by
  the error, as its one response. The pod server then still sends its deletion, whatever
  the deletion answers; the job server sends no deletion. The requests of the call are
  the create call, the watch, the aborts of the callbacks that ran before the handler
  resumed, the log read and, in the pod server, the deletion, in this order.
\<close>

theorem extraction_error_non_fatal:
  "(createError k = None \<and> events k = pre @ (q @ PodEvent ty p # r) # post
      \<and> quietChunks pre \<and> quiet q \<and> isTerminal (phaseOf p)
      \<and> podLogs k (unitName PodVariant (now k)) = Inl err
    \<longrightarrow> fetchUrl PodVariant penv k url
          = (Returned (''Error retrieving logs: '' @ toString err),
             submitted PodVariant penv k url
               @ abortCalls (chunkAborts (WatchStarted \<in> set (concat pre @ q))
                               (PodEvent ty p # r))
               @ [ReadPodLog (NAMESPACE penv) (unitName PodVariant (now k)) ''fetcher'',
                  DeletePod (NAMESPACE penv) (unitName PodVariant (now k))]))
   \<and> (createError k = None \<and> events k = pre @ (q @ PodEvent ty p # r) # post
      \<and> quietChunks pre \<and> quiet q \<and> isTerminal (phaseOf p)
      \<and> podLogs k (lastName (metadata_name p) r) = Inl err
    \<longrightarrow> fetchUrl JobVariant penv k url
          = (Returned (''Error retrieving logs: '' @ toString err),
             submitted JobVariant penv k url
               @ abortCalls (chunkAborts (WatchStarted \<in> set (concat pre @ q))
                               (PodEvent ty p # r))
               @ [ReadPodLog (NAMESPACE penv) (lastName (metadata_name p) r) ''fetcher'']))"
  by (simp add: fetchUrl_terminal[of k pre q ty p r post] extractTarget_def readLogText_def)

theorem extraction_error_non_fatal_witness:
  "quietChunks (runningPrefix ''fetch-pod-1700000000123'')
   \<and> isTerminal (phaseOf (podInPhase ''fetch-pod-1700000000123'' ''Succeeded''))
   \<and> fetchUrl PodVariant Map.empty
        \<lparr> now = 1700000000123, createError = None,
          events = runningPrefix ''fetch-pod-1700000000123''
             @ [[PodEvent ''MODIFIED'' (podInPhase ''fetch-pod-1700000000123'' ''Succeeded'')]],
          podLogs = (\<lambda>n. Inl notFound), deleteError = (\<lambda>n. Some forbidden) \<rparr>
        ''https://example.com''
     = (Returned ''Error retrieving logs: Error: HTTP-Code: 404'',
        [CreateUnit ''default''
           (buildManifest PodVariant ''fetch-pod-1700000000123'' ''https://example.com''),
         WatchPods ''default'' ''metadata.name=fetch-pod-1700000000123'',
         AbortWatch,
         ReadPodLog ''default'' ''fetch-pod-1700000000123'' ''fetcher'',
         DeletePod ''default'' ''fetch-pod-1700000000123''])
   \<and> fetchUrl JobVariant Map.empty
        \<lparr> now = 1700000000123, createError = None,
          events = runningPrefix ''fetch-job-1700000000123-x7k2p''
             @ [[PodEvent ''MODIFIED'' (podInPhase ''fetch-job-1700000000123-x7k2p'' ''Succeeded'')]],
          podLogs = (\<lambda>n. Inl notFound), deleteError = (\<lambda>n. Some forbidden) \<rparr>
        ''https://example.com''
     = (Returned ''Error retrieving logs: Error: HTTP-Code: 404'',
        [CreateUnit ''default''
           (buildManifest JobVariant ''fetch-job-1700000000123'' ''https://example.com''),
         WatchPods ''default'' ''job-name=fetch-job-1700000000123'',
         AbortWatch,
         ReadPodLog ''default'' ''fetch-job-1700000000123-x7k2p'' ''fetcher''])"
  using
    extraction_error_non_fatal
      [where k = "\<lparr> now = 1700000000123, createError = None,
            events = runningPrefix ''fetch-pod-1700000000123''
               @ [[PodEvent ''MODIFIED'' (podInPhase ''fetch-pod-1700000000123'' ''Succeeded'')]],
            podLogs = (\<lambda>n. Inl notFound), deleteError = (\<lambda>n. Some forbidden) \<rparr>"
         and pre = "runningPrefix ''fetch-pod-1700000000123''" and q = "[]"
         and ty = "''MODIFIED''"
         and p = "podInPhase ''fetch-pod-1700000000123'' ''Succeeded''"
         and r = "[]" and post = "[]" and err = notFound
         and penv = Map.empty and url = "''https://example.com''"]
    extraction_error_non_fatal
      [where k = "\<lparr> now = 1700000000123, createError = None,
            events = runningPrefix ''fetch-job-1700000000123-x7k2p''
               @ [[PodEvent ''MODIFIED'' (podInPhase ''fetch-job-1700000000123-x7k2p'' ''Succeeded'')]],
            podLogs = (\<lambda>n. Inl notFound), deleteError = (\<lambda>n. Some forbidden) \<rparr>"
         and pre = "runningPrefix ''fetch-job-1700000000123-x7k2p''" and q = "[]"
         and ty = "''MODIFIED''"
         and p = "podInPhase ''fetch-job-1700000000123-x7k2p'' ''Succeeded''"
         and r = "[]" and post = "[]" and err = notFound
         and penv = Map.empty and url = "''https://example.com''"]
  by (simp add: run_defs submitted_def abortCalls_def notFound_def forbidden_def
        showNat.simps digit_def)

section \<open>The identity handed to the log read\<close>

text \<open>
  C7, as stated, fails: the job server overwrites \<open>podName\<close> on every event, so the
  log is read from the pod named in the latest event, not from the pod named in the
  first event.
\<close>

theorem extractor_gets_latest_name:
  "firstObservedName
     (concat [[WatchStarted],
        [PodEvent ''ADDED'' (podInPhase ''fetch-job-1700000000123-aaaaa'' ''Pending'')],
        [PodEvent ''ADDED'' (podInPhase ''fetch-job-1700000000123-bbbbb'' ''Succeeded'')]])
   = Some ''fetch-job-1700000000123-aaaaa''
   \<and> extractedNames (snd (fetchUrl JobVariant Map.empty
        (clusterAt 1700000000123
           [[WatchStarted],
            [PodEvent ''ADDED'' (podInPhase ''fetch-job-1700000000123-aaaaa'' ''Pending'')],
            [PodEvent ''ADDED'' (podInPhase ''fetch-job-1700000000123-bbbbb'' ''Succeeded'')]]
           (\<lambda>n. Inr []))
        ''https://example.com''))
     = [''fetch-job-1700000000123-bbbbb'']"
  by (simp add: run_defs firstObservedName_def)

text \<open>
  C7, amended: in the job server the log is read from the pod named in the last pod
  event whose callback ran before the handler resumed: the event whose terminal phase
  ended the watch when nothing follows it in its chunk, and otherwise the last pod event
  of that chunk. On every path, each name a log read is sent for is the name of a pod
  event of the stream.
\<close>

theorem extractor_identity_observed:
  "(createError k = None \<and> events k = pre @ (q @ PodEvent ty p # r) # post
      \<and> quietChunks pre \<and> quiet q \<and> isTerminal (phaseOf p)
    \<longrightarrow> extractedNames (snd (fetchUrl JobVariant penv k url))
          = [lastName (metadata_name p) r])
   \<and> (createError k = None \<and> events k = pre @ (q @ [PodEvent ty p]) # post
      \<and> quietChunks pre \<and> quiet q \<and> isTerminal (phaseOf p)
    \<longrightarrow> extractedNames (snd (fetchUrl JobVariant penv k url)) = [metadata_name p])
   \<and> set (extractedNames (snd (fetchUrl JobVariant penv k url)))
        \<subseteq> set (observedNames (concat (events k)))"
proof (intro conjI impI)
  assume "createError k = None \<and> events k = pre @ (q @ PodEvent ty p # r) # post
      \<and> quietChunks pre \<and> quiet q \<and> isTerminal (phaseOf p)"
  then show "extractedNames (snd (fetchUrl JobVariant penv k url))
          = [lastName (metadata_name p) r]"
    by (simp add: fetchUrl_terminal[of k pre q ty p r post] extractedNames_append
          extractedNames_submitted extractedNames_abortCalls extractTarget_def)
next
  assume "createError k = None \<and> events k = pre @ (q @ [PodEvent ty p]) # post
      \<and> quietChunks pre \<and> quiet q \<and> isTerminal (phaseOf p)"
  then show "extractedNames (snd (fetchUrl JobVariant penv k url)) = [metadata_name p]"
    by (simp add: fetchUrl_terminal[of k pre q ty p "[]" post] extractedNames_append
          extractedNames_submitted extractedNames_abortCalls extractTarget_def)
next
  show "set (extractedNames (snd (fetchUrl JobVariant penv k url)))
        \<subseteq> set (observedNames (concat (events k)))"
  proof (cases rule: fetchUrl_paths[of k])
    case (terminal pre q ty p r post)
    have "lastName (metadata_name p) r \<in> insert (metadata_name p) (set (observedNames r))"
      by (rule lastName_observed)
    with terminal show ?thesis
      by (auto simp: fetchUrl_terminal[of k pre q ty p r post] extractedNames_append
            extractedNames_submitted extractedNames_abortCalls extractTarget_def
            observedNames_append)
  qed (simp_all add: fetchUrl_submission_error fetchUrl_timeout fetchUrl_stream_error
         fetchUrl_watch_rejected extractedNames_append extractedNames_submitted
         extractedNames_abortCalls)
qed

theorem extractor_identity_observed_witness:
  "quietChunks [[WatchStarted]]
   \<and> quiet [PodEvent ''ADDED'' (podInPhase ''fetch-job-1700000000123-aaaaa'' ''Pending'')]
   \<and> isTerminal (phaseOf (podInPhase ''fetch-job-1700000000123-bbbbb'' ''Failed''))
   \<and> extractedNames (snd (fetchUrl JobVariant Map.empty
        (clusterAt 1700000000123
           [[WatchStarted],
            [PodEvent ''ADDED'' (podInPhase ''fetch-job-1700000000123-aaaaa'' ''Pending''),
             PodEvent ''ADDED'' (podInPhase ''fetch-job-1700000000123-bbbbb'' ''Failed''),
             PodEvent ''MODIFIED'' (podInPhase ''fetch-job-1700000000123-ccccc'' ''Pending'')]]
           (\<lambda>n. Inr []))
        ''https://example.com''))
     = [''fetch-job-1700000000123-ccccc'']
   \<and> extractedNames (snd (fetchUrl JobVariant Map.empty
        (clusterAt 1700000000123
           [[WatchStarted],
            [PodEvent ''ADDED'' (podInPhase ''fetch-job-1700000000123-aaaaa'' ''Pending''),
             PodEvent ''ADDED'' (podInPhase ''fetch-job-1700000000123-bbbbb'' ''Failed'')]]
           (\<lambda>n. Inr []))
        ''https://example.com''))
     = [''fetch-job-1700000000123-bbbbb'']"
  using
    extractor_identity_observed
      [where k = "clusterAt 1700000000123
           [[WatchStarted],
            [PodEvent ''ADDED'' (podInPhase ''fetch-job-1700000000123-aaaaa'' ''Pending''),
             PodEvent ''ADDED'' (podInPhase ''fetch-job-1700000000123-bbbbb'' ''Failed''),
             PodEvent ''MODIFIED'' (podInPhase ''fetch-job-1700000000123-ccccc'' ''Pending'')]]
           (\<lambda>n. Inr [])"
         and pre = "[[WatchStarted]]"
         and q = "[PodEvent ''ADDED'' (podInPhase ''fetch-job-1700000000123-aaaaa'' ''Pending'')]"
         and ty = "''ADDED''" and p = "podInPhase ''fetch-job-1700000000123-bbbbb'' ''Failed''"
         and r = "[PodEvent ''MODIFIED'' (podInPhase ''fetch-job-1700000000123-ccccc'' ''Pending'')]"
         and post = "[]" and penv = Map.empty and url = "''https://example.com''"]
    extractor_identity_observed
      [where k = "clusterAt 1700000000123
           [[WatchStarted],
            [PodEvent ''ADDED'' (podInPhase ''fetch-job-1700000000123-aaaaa'' ''Pending''),
             PodEvent ''ADDED'' (podInPhase ''fetch-job-1700000000123-bbbbb'' ''Failed'')]]
           (\<lambda>n. Inr [])"
         and pre = "[[WatchStarted]]"
         and q = "[PodEvent ''ADDED'' (podInPhase ''fetch-job-1700000000123-aaaaa'' ''Pending'')]"
         and ty = "''ADDED''" and p = "podInPhase ''fetch-job-1700000000123-bbbbb'' ''Failed''"
         and r = "[]"
         and post = "[]" and penv = Map.empty and url = "''https://example.com''"]
  by (simp add: run_defs)

section \<open>Names of the submitted units\<close>




section \<open>Configuration values\<close>

text \<open>
  C9, as stated, fails: the delay of the deadline timer is a literal of the handler; the
  environment changes the namespace and leaves the delay as it is.
\<close>

theorem timeout_ignores_environment:
  "timeoutDelay (Map.empty(''K8S_NAMESPACE'' \<mapsto> ''prod'', ''WATCH_TIMEOUT_MS'' \<mapsto> ''1000''))
     = timeoutDelay Map.empty
   \<and> NAMESPACE (Map.empty(''K8S_NAMESPACE'' \<mapsto> ''prod'', ''WATCH_TIMEOUT_MS'' \<mapsto> ''1000''))
     \<noteq> NAMESPACE Map.empty"
  by (simp add: timeoutDelay_def NAMESPACE_def)

text \<open>
  C9, amended: the namespace is read from the environment variable \<open>K8S_NAMESPACE\<close>
  and is \<open>default\<close> when the variable is absent or empty; the watch timeout is the
  constant 300000 ms (5 minutes), whatever the environment holds.
\<close>

theorem configuration_values:
  "(penv ''K8S_NAMESPACE'' = None \<longrightarrow> NAMESPACE penv = ''default'')
   \<and> (penv ''K8S_NAMESPACE'' = Some [] \<longrightarrow> NAMESPACE penv = ''default'')
   \<and> (penv ''K8S_NAMESPACE'' = Some ns \<and> ns \<noteq> [] \<longrightarrow> NAMESPACE penv = ns)
   \<and> timeoutDelay penv = 300000"
  by (simp add: NAMESPACE_def timeoutDelay_def)

theorem configuration_values_witness:
  "(Map.empty :: process_env) ''K8S_NAMESPACE'' = None
   \<and> NAMESPACE Map.empty = ''default''
   \<and> (Map.empty(''K8S_NAMESPACE'' \<mapsto> [])) ''K8S_NAMESPACE'' = Some []
   \<and> NAMESPACE (Map.empty(''K8S_NAMESPACE'' \<mapsto> [])) = ''default''
   \<and> (Map.empty(''K8S_NAMESPACE'' \<mapsto> ''prod'')) ''K8S_NAMESPACE'' = Some ''prod''
   \<and> NAMESPACE (Map.empty(''K8S_NAMESPACE'' \<mapsto> ''prod'')) = ''prod''
   \<and> timeoutDelay (Map.empty(''K8S_NAMESPACE'' \<mapsto> ''prod'')) = 300000"
  using
    configuration_values [of Map.empty "[]"]
    configuration_values [of "Map.empty(''K8S_NAMESPACE'' \<mapsto> [])" "[]"]
    configuration_values [of "Map.empty(''K8S_NAMESPACE'' \<mapsto> ''prod'')" "''prod''"]
  by simp

section \<open>Events without a phase\<close>

text \<open>
  C10: a pod event whose snapshot has no \<open>status\<close>, or a \<open>status\<close> without
  \<open>phase\<close>, is not terminal: its callback neither settles the promise nor clears the
  timer nor aborts the watch. The watch promise resolves only if some pod event of the
  stream has the phase \<open>Succeeded\<close> or \<open>Failed\<close>.
\<close>

theorem missing_phase_not_terminal:
  "(status p = None \<or> status p = Some \<lparr> phase = None \<rparr>
    \<longrightarrow> phaseOf p = None \<and> orEmpty (phaseOf p) = [] \<and> \<not> isTerminal (phaseOf p)
        \<and> settled (onEvent v (PodEvent ty p) s) = settled s
        \<and> timerArmed (onEvent v (PodEvent ty p) s) = timerArmed s
        \<and> calls (onEvent v (PodEvent ty p) s) = calls s)
   \<and> (settled (awaitWatch v evs (startWatch v ns name cs)) = Some Resolved
    \<longrightarrow> (\<exists>ty' q. PodEvent ty' q \<in> set (concat evs)
            \<and> (phaseOf q = Some ''Succeeded'' \<or> phaseOf q = Some ''Failed'')))"
proof (intro conjI impI)
  assume r: "settled (awaitWatch v evs (startWatch v ns name cs)) = Some Resolved"
  have "settled (startWatch v ns name cs) = None" by simp
  from awaitWatch_resolved_terminal[OF this r]
  show "\<exists>ty' q. PodEvent ty' q \<in> set (concat evs)
            \<and> (phaseOf q = Some ''Succeeded'' \<or> phaseOf q = Some ''Failed'')"
    by (simp add: isTerminal_iff)
qed (cases v; auto simp: phaseOf_def orEmpty_def isTerminal_def onPodEvent_def)+

theorem missing_phase_not_terminal_witness:
  "status (podWithoutStatus ''fetch-pod-1700000000123'') = None
   \<and> \<not> isTerminal (phaseOf (podWithoutStatus ''fetch-pod-1700000000123''))
   \<and> status (podWithoutPhase ''fetch-pod-1700000000123'') = Some \<lparr> phase = None \<rparr>
   \<and> \<not> isTerminal (phaseOf (podWithoutPhase ''fetch-pod-1700000000123''))
   \<and> settled (onEvent PodVariant
        (PodEvent ''ADDED'' (podWithoutPhase ''fetch-pod-1700000000123''))
        (startWatch PodVariant ''default'' ''fetch-pod-1700000000123'' [])) = None
   \<and> settled (awaitWatch PodVariant
        [[WatchStarted],
         [PodEvent ''ADDED'' (podWithoutStatus ''fetch-pod-1700000000123'')],
         [PodEvent ''MODIFIED'' (podInPhase ''fetch-pod-1700000000123'' ''Succeeded'')]]
        (startWatch PodVariant ''default'' ''fetch-pod-1700000000123'' [])) = Some Resolved
   \<and> phaseOf (podInPhase ''fetch-pod-1700000000123'' ''Succeeded'') = Some ''Succeeded''"
  using
    missing_phase_not_terminal
      [where p = "podWithoutStatus ''fetch-pod-1700000000123''" and v = PodVariant
         and ty = "''ADDED''"
         and s = "startWatch PodVariant ''default'' ''fetch-pod-1700000000123'' []"
         and evs = "[[WatchStarted],
            [PodEvent ''ADDED'' (podWithoutStatus ''fetch-pod-1700000000123'')],
            [PodEvent ''MODIFIED'' (podInPhase ''fetch-pod-1700000000123'' ''Succeeded'')]]"
         and ns = "''default''" and name = "''fetch-pod-1700000000123''" and cs = "[]"]
    missing_phase_not_terminal
      [where p = "podWithoutPhase ''fetch-pod-1700000000123''" and v = PodVariant
         and ty = "''ADDED''"
         and s = "startWatch PodVariant ''default'' ''fetch-pod-1700000000123'' []"
         and evs = "[]" and ns = "''default''" and name = "''fetch-pod-1700000000123''"
         and cs = "[]"]
  by (simp add: run_defs)

end
